theory Spec2Isabelle
  imports Complex_Main "HOL-Library.AList" "HOL-Library.Product_Lexorder"
begin

section \<open>Data model of the economic data preprocessor\<close>

text \<open>
  The program (\<^verbatim>\<open>data/script/data_preprocessing.py\<close>, class
  \<^verbatim>\<open>EconomicDataPreprocessor\<close>) transforms one pandas DataFrame through a sequence of
  methods. The embedding is column oriented, as a DataFrame is: a table is its row index
  together with an ordered association list from column names to columns, and a column
  carries its dtype.

  A \<^verbatim>\<open>float64\<close> cell is one of four kinds of value. Finite values are exact real numbers:
  the model keeps the special values of IEEE arithmetic (NaN, which pandas uses as the
  missing marker, and the two infinities), and leaves out rounding, overflow and the sign of
  zero. An \<^verbatim>\<open>int64\<close> column is a numeric column of finite values.
\<close>

datatype fval = NaN | NInf | Fin real | PInf

text \<open>
  A timestamp is (year, month, day, nanosecond of the day); the lexicographic order on the
  tuple is the chronological order. \<^verbatim>\<open>None\<close> in a datetime column is \<^verbatim>\<open>NaT\<close>, in an
  object column it is a missing cell.
\<close>

type_synonym timestamp = "nat \<times> nat \<times> nat \<times> nat"

datatype column =
    NumCol "fval list"
  | ObjCol "string option list"
  | DateCol "timestamp option list"

record table =
  index :: "nat list"
  columns :: "(string \<times> column) list"

datatype error = OutOfBoundsDatetime | TypeError

definition len :: "table \<Rightarrow> nat" where
  "len df = length (index df)"

definition get_col :: "table \<Rightarrow> string \<Rightarrow> column option" where
  "get_col df c = map_of (columns df) c"

text \<open>\<^verbatim>\<open>df[c] = v\<close>: an existing column is replaced in place, a new one is appended.\<close>

definition set_col :: "string \<Rightarrow> column \<Rightarrow> table \<Rightarrow> table" where
  "set_col c v df = df\<lparr>columns := AList.update c v (columns df)\<rparr>"

fun take_col :: "nat list \<Rightarrow> column \<Rightarrow> column" where
  "take_col ps (NumCol xs) = NumCol (map ((!) xs) ps)"
| "take_col ps (ObjCol xs) = ObjCol (map ((!) xs) ps)"
| "take_col ps (DateCol xs) = DateCol (map ((!) xs) ps)"

text \<open>The rows at the positions \<open>ps\<close>, in that order, each with its index label.\<close>

definition take_rows :: "nat list \<Rightarrow> table \<Rightarrow> table" where
  "take_rows ps df =
     \<lparr>index = map ((!) (index df)) ps,
      columns = map (\<lambda>(c, v). (c, take_col ps v)) (columns df)\<rparr>"

section \<open>Date Normalizer: \<^verbatim>\<open>clean_date_column\<close>\<close>

definition is_leap :: "nat \<Rightarrow> bool" where
  "is_leap y = (y mod 4 = 0 \<and> (y mod 100 \<noteq> 0 \<or> y mod 400 = 0))"

definition days_in_month :: "nat \<Rightarrow> nat \<Rightarrow> nat" where
  "days_in_month y m =
     (if m = 2 then (if is_leap y then 29 else 28)
      else if m = 4 \<or> m = 6 \<or> m = 9 \<or> m = 11 then 30 else 31)"

text \<open>
  \<^verbatim>\<open>pd.date_range(start='2020-01-01', periods=n, freq='M')\<close>. The frequency alias
  \<^verbatim>\<open>'M'\<close> is pandas' month-end frequency: the start is rolled forward to the first month
  end on or after it, and entry \<open>k\<close> is the last day of the \<open>k\<close>-th month after January 2020,
  at midnight.
\<close>

definition month_end :: "nat \<Rightarrow> timestamp" where
  "month_end k =
     (let y = 2020 + k div 12; m = k mod 12 + 1 in (y, m, days_in_month y m, 0))"

text \<open>
  \<^verbatim>\<open>Timestamp.max\<close> of the nanosecond resolution, 2262-04-11 23:47:16.854775807: a range
  whose last entry lies beyond it raises \<^verbatim>\<open>OutOfBoundsDatetime\<close>.
\<close>

definition timestamp_max :: timestamp where
  "timestamp_max = (2262, 4, 11, 85636854775807)"

definition date_range :: "nat \<Rightarrow> error + timestamp list" where
  "date_range periods =
     (if 0 < periods \<and> timestamp_max < month_end (periods - 1)
      then Inl OutOfBoundsDatetime
      else Inr (map month_end [0..<periods]))"

text \<open>
  \<^verbatim>\<open>pd.to_datetime(col, errors='coerce')\<close>. The parser of strings and the reading of
  numbers as epoch offsets belong to pandas; they are parameters. A value that does not
  parse becomes \<^verbatim>\<open>NaT\<close>; a datetime column is returned as it is.
\<close>

fun to_datetime ::
  "(string \<Rightarrow> timestamp option) \<Rightarrow> (fval \<Rightarrow> timestamp option) \<Rightarrow> column \<Rightarrow> timestamp option list"
where
  "to_datetime pstr pnum (ObjCol xs) =
     map (\<lambda>x. case x of None \<Rightarrow> None | Some s \<Rightarrow> pstr s) xs"
| "to_datetime pstr pnum (NumCol xs) = map pnum xs"
| "to_datetime pstr pnum (DateCol xs) = xs"

text \<open>\<^verbatim>\<open>df.dropna(subset=['Date'])\<close>, for a datetime column \<open>ds\<close> of the table.\<close>

definition dropna_date :: "timestamp option list \<Rightarrow> table \<Rightarrow> table" where
  "dropna_date ds df = take_rows (filter (\<lambda>i. ds ! i \<noteq> None) [0..<length ds]) df"

text \<open>
  \<^verbatim>\<open>df.sort_values('Date')\<close>: ascending, \<^verbatim>\<open>NaT\<close> last. pandas' default sort does not
  promise an order among equal dates; the model takes the stable one. When control reaches
  the sort the column is a datetime column on both branches.
\<close>

definition na_last :: "timestamp option \<Rightarrow> nat \<times> timestamp" where
  "na_last d = (case d of None \<Rightarrow> (1, (0, 0, 0, 0)) | Some t \<Rightarrow> (0, t))"

definition argsort :: "timestamp option list \<Rightarrow> nat list" where
  "argsort ds = sort_key (\<lambda>i. na_last (ds ! i)) [0..<length ds]"

definition sort_values_Date :: "table \<Rightarrow> table" where
  "sort_values_Date df =
     (case get_col df ''Date'' of
        Some (DateCol ds) \<Rightarrow> take_rows (argsort ds) df
      | _ \<Rightarrow> df)"

text \<open>\<^verbatim>\<open>df.reset_index(drop=True)\<close>.\<close>

definition reset_index :: "table \<Rightarrow> table" where
  "reset_index df = df\<lparr>index := [0..<len df]\<rparr>"

text \<open>Logging calls do not affect the returned table and are left out of this method.\<close>

definition clean_date_column ::
  "(string \<Rightarrow> timestamp option) \<Rightarrow> (fval \<Rightarrow> timestamp option) \<Rightarrow> table \<Rightarrow> error + table"
where
  "clean_date_column pstr pnum df =
     (case get_col df ''Date'' of
        None \<Rightarrow>
          (case date_range (len df) of
             Inl e \<Rightarrow> Inl e
           | Inr ds \<Rightarrow>
               Inr (reset_index (sort_values_Date
                      (set_col ''Date'' (DateCol (map Some ds)) df))))
      | Some c \<Rightarrow>
          (let ds = to_datetime pstr pnum c;
               df1 = set_col ''Date'' (DateCol ds) df;
               invalid_dates = length (filter (\<lambda>d. d = None) ds);
               df2 = (if 0 < invalid_dates then dropna_date ds df1 else df1)
           in Inr (reset_index (sort_values_Date df2))))"

section \<open>Arithmetic on cells\<close>

text \<open>
  The elementwise operations of numpy on \<^verbatim>\<open>float64\<close>, with the special cases of IEEE 754
  written out: NaN is absorbing, comparisons with NaN are false, \<open>\<infinity> - \<infinity>\<close>, \<open>0 \<times> \<infinity>\<close>,
  \<open>0 / 0\<close> and \<open>\<infinity> / \<infinity>\<close> are NaN, and a nonzero finite value divided by zero is an
  infinity (numpy does not raise).
\<close>

fun fneg :: "fval \<Rightarrow> fval" where
  "fneg NaN = NaN"
| "fneg NInf = PInf"
| "fneg PInf = NInf"
| "fneg (Fin a) = Fin (- a)"

fun fadd :: "fval \<Rightarrow> fval \<Rightarrow> fval" where
  "fadd NaN y = NaN"
| "fadd x NaN = NaN"
| "fadd (Fin a) (Fin b) = Fin (a + b)"
| "fadd (Fin a) y = y"
| "fadd x (Fin b) = x"
| "fadd PInf PInf = PInf"
| "fadd NInf NInf = NInf"
| "fadd PInf NInf = NaN"
| "fadd NInf PInf = NaN"

definition fsub :: "fval \<Rightarrow> fval \<Rightarrow> fval" where
  "fsub x y = fadd x (fneg y)"

fun fabs :: "fval \<Rightarrow> fval" where
  "fabs NaN = NaN"
| "fabs NInf = PInf"
| "fabs PInf = PInf"
| "fabs (Fin a) = Fin \<bar>a\<bar>"

text \<open>The sign of a value that is not NaN: \<open>-1\<close>, \<open>0\<close> or \<open>1\<close>.\<close>

fun fsgn :: "fval \<Rightarrow> real" where
  "fsgn NaN = 0"
| "fsgn NInf = - 1"
| "fsgn PInf = 1"
| "fsgn (Fin a) = sgn a"

definition signed_inf :: "real \<Rightarrow> fval" where
  "signed_inf s = (if s = 0 then NaN else if 0 < s then PInf else NInf)"

fun fmul :: "fval \<Rightarrow> fval \<Rightarrow> fval" where
  "fmul NaN y = NaN"
| "fmul x NaN = NaN"
| "fmul (Fin a) (Fin b) = Fin (a * b)"
| "fmul x y = signed_inf (fsgn x * fsgn y)"

fun fdiv :: "fval \<Rightarrow> fval \<Rightarrow> fval" where
  "fdiv NaN y = NaN"
| "fdiv x NaN = NaN"
| "fdiv (Fin a) (Fin b) = (if b = 0 then signed_inf (sgn a) else Fin (a / b))"
| "fdiv (Fin a) y = Fin 0"
| "fdiv x (Fin b) = (if b < 0 then fneg x else x)"
| "fdiv x y = NaN"

fun fsqrt :: "fval \<Rightarrow> fval" where
  "fsqrt NaN = NaN"
| "fsqrt NInf = NaN"
| "fsqrt PInf = PInf"
| "fsqrt (Fin a) = (if a < 0 then NaN else Fin (sqrt a))"

fun flt :: "fval \<Rightarrow> fval \<Rightarrow> bool" where
  "flt NaN y = False"
| "flt x NaN = False"
| "flt (Fin a) (Fin b) = (a < b)"
| "flt NInf NInf = False"
| "flt NInf y = True"
| "flt PInf y = False"
| "flt (Fin a) NInf = False"
| "flt (Fin a) PInf = True"

definition fgt :: "fval \<Rightarrow> fval \<Rightarrow> bool" where
  "fgt x y = flt y x"

definition isna :: "fval \<Rightarrow> bool" where
  "isna x = (x = NaN)"

section \<open>Consistency Validator: \<^verbatim>\<open>validate_economic_relationships\<close>\<close>

text \<open>
  Arithmetic and comparison on a column need a numeric dtype. A datetime column raises
  \<^verbatim>\<open>TypeError\<close>, and so does an object column, which holds at least one string
  (\<^verbatim>\<open>read_csv\<close> types a column without strings as numeric). The model reads a column
  for arithmetic with \<open>num_col\<close>; a column that is absent is never read, the source tests
  for it first.
\<close>

definition num_col :: "table \<Rightarrow> string \<Rightarrow> error + fval list" where
  "num_col df c = (case get_col df c of Some (NumCol xs) \<Rightarrow> Inr xs | _ \<Rightarrow> Inl TypeError)"

definition bnd :: "error + 'a \<Rightarrow> ('a \<Rightarrow> error + 'b) \<Rightarrow> error + 'b" where
  "bnd m f = (case m of Inl e \<Rightarrow> Inl e | Inr x \<Rightarrow> f x)"

definition has_cols :: "table \<Rightarrow> string list \<Rightarrow> bool" where
  "has_cols df cs = list_all (\<lambda>c. get_col df c \<noteq> None) cs"

text \<open>
  The three messages of the validator, with the numbers and names the f-strings insert:
  \<^verbatim>\<open>"GDP components don't sum to GDP in {count} rows"\<close>,
  \<^verbatim>\<open>"Fiscal deficit calculation inconsistent in {count} rows"\<close>,
  \<^verbatim>\<open>"{col} has {negative_values} negative values"\<close>.
\<close>

datatype issue = GDPMismatch nat | DeficitMismatch nat | NegativeValues string nat

definition count_true :: "bool list \<Rightarrow> nat" where
  "count_true bs = length (filter (\<lambda>b. b) bs)"

definition gdp_check :: "table \<Rightarrow> error + issue list" where
  "gdp_check df =
     (if has_cols df [''GDP'', ''Consumption'', ''Investment'', ''Government_Spending'',
                      ''Net_Exports'']
      then
        bnd (num_col df ''Consumption'') (\<lambda>cons.
        bnd (num_col df ''Investment'') (\<lambda>invest.
        bnd (num_col df ''Government_Spending'') (\<lambda>gov.
        bnd (num_col df ''Net_Exports'') (\<lambda>nx.
        bnd (num_col df ''GDP'') (\<lambda>gdp.
          let gdp_components_sum = map2 fadd (map2 fadd (map2 fadd cons invest) gov) nx;
              gdp_diff = map fabs (map2 fsub gdp gdp_components_sum);
              tolerance = map (\<lambda>g. fmul (Fin 0.05) (fabs g)) gdp;
              inconsistent_rows = map2 fgt gdp_diff tolerance
          in Inr (if list_ex (\<lambda>b. b) inconsistent_rows
                  then [GDPMismatch (count_true inconsistent_rows)] else []))))))
      else Inr [])"

definition deficit_check :: "table \<Rightarrow> error + issue list" where
  "deficit_check df =
     (if has_cols df [''Fiscal_Deficit'', ''Government_Revenue'', ''Expenditure'']
      then
        bnd (num_col df ''Expenditure'') (\<lambda>expd.
        bnd (num_col df ''Government_Revenue'') (\<lambda>rev.
        bnd (num_col df ''Fiscal_Deficit'') (\<lambda>fd.
          let calculated_deficit = map2 fsub expd rev;
              deficit_diff = map fabs (map2 fsub fd calculated_deficit);
              tolerance = map (\<lambda>e. fmul (Fin 0.01) (fabs e)) expd;
              inconsistent_deficit = map2 fgt deficit_diff tolerance
          in Inr (if list_ex (\<lambda>b. b) inconsistent_deficit
                  then [DeficitMismatch (count_true inconsistent_deficit)] else []))))
      else Inr [])"

definition positive_columns :: "string list" where
  "positive_columns = [''GDP'', ''Consumption'', ''Investment'', ''Government_Spending'',
                       ''Government_Revenue'', ''Expenditure'']"

fun sign_check :: "table \<Rightarrow> string list \<Rightarrow> error + issue list" where
  "sign_check df [] = Inr []"
| "sign_check df (col # cols) =
     (if get_col df col \<noteq> None
      then
        bnd (num_col df col) (\<lambda>xs.
          let negative_values = count_true (map (\<lambda>x. flt x (Fin 0)) xs)
          in bnd (sign_check df cols) (\<lambda>rest.
               Inr ((if 0 < negative_values then [NegativeValues col negative_values] else [])
                    @ rest)))
      else sign_check df cols)"

definition validate_economic_relationships :: "table \<Rightarrow> error + table \<times> issue list" where
  "validate_economic_relationships df =
     bnd (gdp_check df) (\<lambda>i1.
     bnd (deficit_check df) (\<lambda>i2.
     bnd (sign_check df positive_columns) (\<lambda>i3.
       Inr (df, i1 @ i2 @ i3))))"

section \<open>Numeric Sanitizer: \<^verbatim>\<open>clean_numeric_columns\<close>\<close>

text \<open>
  The keys of \<^verbatim>\<open>expected_columns\<close> other than \<^verbatim>\<open>Date\<close>, in the order of the dictionary.
\<close>

definition numeric_columns :: "string list" where
  "numeric_columns = [''Inflation_Rate'', ''GDP'', ''Consumption'', ''Investment'',
     ''Government_Spending'', ''Net_Exports'', ''Government_Revenue'', ''Expenditure'',
     ''Fiscal_Deficit'']"

text \<open>
  \<^verbatim>\<open>pd.to_numeric(col, errors='coerce')\<close>: a numeric column is returned as it is, a string
  that does not parse and a missing cell become NaN. The parser of strings and the reading of
  a timestamp as a number belong to pandas and are parameters.
\<close>

fun to_numeric :: "(string \<Rightarrow> fval) \<Rightarrow> (timestamp option \<Rightarrow> fval) \<Rightarrow> column \<Rightarrow> fval list" where
  "to_numeric nstr ndate (NumCol xs) = xs"
| "to_numeric nstr ndate (ObjCol xs) = map (\<lambda>x. case x of None \<Rightarrow> NaN | Some s \<Rightarrow> nstr s) xs"
| "to_numeric nstr ndate (DateCol xs) = map ndate xs"

definition fsum :: "fval list \<Rightarrow> fval" where
  "fsum xs = foldl fadd (Fin 0) xs"

definition notna :: "fval list \<Rightarrow> fval list" where
  "notna xs = filter (\<lambda>x. \<not> isna x) xs"

text \<open>\<^verbatim>\<open>Series.mean()\<close>: the sum of the values that are not missing over their number.\<close>

definition mean :: "fval list \<Rightarrow> fval" where
  "mean xs = (let vs = notna xs in fdiv (fsum vs) (Fin (real (length vs))))"

text \<open>
  \<^verbatim>\<open>Series.std()\<close>, with one delta degree of freedom: NaN when fewer than two values are
  present (pandas tests the count, nothing is divided by zero), else the square root of the
  sum of the squared deviations from the mean over the count less one.
\<close>

definition std :: "fval list \<Rightarrow> fval" where
  "std xs =
     (let vs = notna xs; count = length vs in
      if count \<le> 1 then NaN
      else
        (let avg = fdiv (fsum vs) (Fin (real count));
             sqr = map (\<lambda>x. fmul (fsub avg x) (fsub avg x)) vs
         in fsqrt (fdiv (fsum sqr) (Fin (real (count - 1))))))"

text \<open>Lines 102 to 106: the mask of the values beyond three standard deviations.\<close>

definition column_outliers :: "fval list \<Rightarrow> bool list" where
  "column_outliers xs =
     (let mean_val = mean xs;
          std_val = std xs;
          outlier_threshold = fmul (Fin 3) std_val
      in map (\<lambda>x. fgt (fabs (fsub x mean_val)) outlier_threshold) xs)"

text \<open>The messages the method logs, with the values the f-strings insert.\<close>

datatype log_msg =
    MissingValuesInfo string nat
  | OutliersWarning string nat
  | ColumnNotFoundWarning string

text \<open>One pass of the loop body, on the table and the log so far.\<close>

definition clean_numeric_column ::
  "(string \<Rightarrow> fval) \<Rightarrow> (timestamp option \<Rightarrow> fval) \<Rightarrow> string \<Rightarrow> table \<times> log_msg list \<Rightarrow>
     table \<times> log_msg list"
where
  "clean_numeric_column nstr ndate col s =
     (case get_col (fst s) col of
        Some c \<Rightarrow>
          (let xs = to_numeric nstr ndate c;
               df = set_col col (NumCol xs) (fst s);
               missing_count = count_true (map isna xs);
               log1 = (if 0 < missing_count then [MissingValuesInfo col missing_count] else []);
               log2 =
                 (if \<not> list_all isna xs
                  then
                    (let outliers = column_outliers xs;
                         outlier_count = count_true outliers
                     in if 0 < outlier_count then [OutliersWarning col outlier_count] else [])
                  else [])
           in (df, snd s @ log1 @ log2))
      | None \<Rightarrow> (fst s, snd s @ [ColumnNotFoundWarning col]))"

definition clean_numeric_columns ::
  "(string \<Rightarrow> fval) \<Rightarrow> (timestamp option \<Rightarrow> fval) \<Rightarrow> table \<Rightarrow> table \<times> log_msg list"
where
  "clean_numeric_columns nstr ndate df =
     foldl (\<lambda>s col. clean_numeric_column nstr ndate col s) (df, []) numeric_columns"

section \<open>Missing-Value Imputer: \<^verbatim>\<open>handle_missing_values\<close>\<close>

text \<open>
  \<^verbatim>\<open>df[numeric_columns] = f(df[numeric_columns])\<close>, where the numeric columns are those
  \<^verbatim>\<open>select_dtypes(include=[np.number])\<close> finds: each numeric column is replaced in place,
  the others stay.
\<close>

definition on_numeric :: "(fval list \<Rightarrow> fval list) \<Rightarrow> table \<Rightarrow> table" where
  "on_numeric f df =
     df\<lparr>columns :=
          map (\<lambda>(c, v). (c, case v of NumCol xs \<Rightarrow> NumCol (f xs) | _ \<Rightarrow> v)) (columns df)\<rparr>"

text \<open>\<^verbatim>\<open>fillna(method='ffill')\<close> carries the last value present forward.\<close>

fun ffill_from :: "fval \<Rightarrow> fval list \<Rightarrow> fval list" where
  "ffill_from l [] = []"
| "ffill_from l (x # xs) = (if isna x then l # ffill_from l xs else x # ffill_from x xs)"

definition ffill :: "fval list \<Rightarrow> fval list" where
  "ffill xs = ffill_from NaN xs"

definition bfill :: "fval list \<Rightarrow> fval list" where
  "bfill xs = rev (ffill (rev xs))"

definition fillna :: "fval \<Rightarrow> fval list \<Rightarrow> fval list" where
  "fillna v xs = map (\<lambda>x. if isna x then v else x) xs"

text \<open>The order of the values that are not missing, as a sort key.\<close>

fun fkey :: "fval \<Rightarrow> nat \<times> real" where
  "fkey NInf = (0, 0)"
| "fkey (Fin a) = (1, a)"
| "fkey PInf = (2, 0)"
| "fkey NaN = (3, 0)"

text \<open>\<^verbatim>\<open>Series.median()\<close>: the middle of the sorted values present, NaN when there is none.\<close>

definition median :: "fval list \<Rightarrow> fval" where
  "median xs =
     (let vs = sort_key fkey (notna xs); n = length vs in
      if n = 0 then NaN
      else if odd n then vs ! (n div 2)
      else fdiv (fadd (vs ! (n div 2 - 1)) (vs ! (n div 2))) (Fin 2))"

text \<open>
  \<^verbatim>\<open>Series.interpolate(method='linear')\<close> belongs to pandas; the method takes it as the
  parameter \<open>interp\<close>. Both branches that interpolate call it with the same arguments.
\<close>

definition handle_missing_values ::
  "(fval list \<Rightarrow> fval list) \<Rightarrow> table \<Rightarrow> string \<Rightarrow> table"
where
  "handle_missing_values interp df method =
     (if method = ''interpolate'' then on_numeric interp df
      else if method = ''forward_fill'' then on_numeric ffill df
      else if method = ''backward_fill'' then on_numeric bfill df
      else if method = ''mean'' then on_numeric (\<lambda>xs. fillna (mean xs) xs) df
      else if method = ''median'' then on_numeric (\<lambda>xs. fillna (median xs) xs) df
      else on_numeric interp df)"

text \<open>
  A model of the linear interpolation of pandas with its defaults, for the examples: a gap
  between two values present is filled along the straight line between them, by row position;
  a gap after the last value present is filled with that value; a gap before the first value
  present stays.
\<close>

fun next_valid :: "fval list \<Rightarrow> (nat \<times> fval) option" where
  "next_valid [] = None"
| "next_valid (x # xs) =
     (if isna x then (case next_valid xs of None \<Rightarrow> None | Some (k, v) \<Rightarrow> Some (Suc k, v))
      else Some (0, x))"

fun interp_from :: "(nat \<times> fval) option \<Rightarrow> fval list \<Rightarrow> fval list" where
  "interp_from prev [] = []"
| "interp_from prev (x # xs) =
     (if isna x then
        (case prev of
           None \<Rightarrow> NaN # interp_from None xs
         | Some (d, a) \<Rightarrow>
             (case next_valid xs of
                None \<Rightarrow> a # interp_from (Some (Suc d, a)) xs
              | Some (k, b) \<Rightarrow>
                  fadd (fmul (fdiv (fsub b a) (Fin (real (d + k + 2)))) (Fin (real (d + 1)))) a
                    # interp_from (Some (Suc d, a)) xs))
      else x # interp_from (Some (0, x)) xs)"

definition linear_interpolate :: "fval list \<Rightarrow> fval list" where
  "linear_interpolate xs = interp_from None xs"

section \<open>Derived-Indicator Calculator: \<^verbatim>\<open>add_derived_variables\<close>\<close>









section \<open>Well-formed tables, the claims' predicates and example tables\<close>

fun col_length :: "column \<Rightarrow> nat" where
  "col_length (NumCol xs) = length xs"
| "col_length (ObjCol xs) = length xs"
| "col_length (DateCol xs) = length xs"

text \<open>Every column of a DataFrame has one cell per row.\<close>

definition wf_table :: "table \<Rightarrow> bool" where
  "wf_table df = list_all (\<lambda>cv. col_length (snd cv) = len df) (columns df)"

text \<open>A column that is absent or has a numeric dtype.\<close>

definition numeric_or_absent :: "table \<Rightarrow> string \<Rightarrow> bool" where
  "numeric_or_absent df c =
     (case get_col df c of Some (ObjCol xs) \<Rightarrow> False | Some (DateCol xs) \<Rightarrow> False
      | _ \<Rightarrow> True)"

text \<open>
  A table whose registered numeric columns are already coerced: each of them that is present
  has a numeric dtype. This is what the Numeric Sanitizer hands to the later stages.
\<close>

definition coerced :: "table \<Rightarrow> bool" where
  "coerced df = list_all (numeric_or_absent df) numeric_columns"

text \<open>
  The row condition of the GDP identity as the specification words it:
  \<open>|GDP - (Consumption + Investment + Government_Spending + Net_Exports)| > 0.05 \<times> |GDP|\<close>.
\<close>

definition gdp_identity_violated :: "fval \<Rightarrow> fval \<Rightarrow> fval \<Rightarrow> fval \<Rightarrow> fval \<Rightarrow> bool" where
  "gdp_identity_violated gdp cons invest gov nx =
     fgt (fabs (fsub gdp (fadd (fadd (fadd cons invest) gov) nx))) (fmul (Fin 0.05) (fabs gdp))"

text \<open>A cell that is not missing and is strictly negative.\<close>

fun strictly_negative :: "fval \<Rightarrow> bool" where
  "strictly_negative (Fin a) = (a < 0)"
| "strictly_negative NInf = True"
| "strictly_negative x = False"


definition growth_factor :: "fval \<Rightarrow> fval" where
  "growth_factor r = fadd (Fin 1) (fdiv r (Fin 100))"

definition price_index_product :: "fval list \<Rightarrow> nat \<Rightarrow> fval" where
  "price_index_product infl i =
     fmul (Fin 100) (foldl fmul (Fin 1) (map growth_factor (take (Suc i) infl)))"

text \<open>A cell that is at least one.\<close>

fun ge1 :: "fval \<Rightarrow> bool" where
  "ge1 (Fin a) = (1 \<le> a)"
| "ge1 PInf = True"
| "ge1 x = False"



fun is_negative_issue :: "string \<Rightarrow> issue \<Rightarrow> bool" where
  "is_negative_issue c (NegativeValues c' k) = (c' = c)"
| "is_negative_issue c i = False"

definition example_parse :: "string \<Rightarrow> timestamp option" where
  "example_parse s =
     (if s = ''2021-03-01'' then Some (2021, 3, 1, 0)
      else if s = ''2020-05-17'' then Some (2020, 5, 17, 0)
      else None)"

definition dated_table :: table where
  "dated_table =
     \<lparr>index = [0, 1, 2],
      columns = [(''Date'', ObjCol [Some ''2021-03-01'', Some ''N/A'', Some ''2020-05-17'']),
                 (''GDP'', NumCol [Fin 3, Fin 2, Fin 1])]\<rparr>"

definition dated_table_cleaned :: table where
  "dated_table_cleaned =
     \<lparr>index = [0, 1],
      columns = [(''Date'', DateCol [Some (2020, 5, 17, 0), Some (2021, 3, 1, 0)]),
                 (''GDP'', NumCol [Fin 1, Fin 3])]\<rparr>"

definition no_date_table :: table where
  "no_date_table =
     \<lparr>index = [0, 1, 2], columns = [(''GDP'', NumCol [Fin 100, NaN, Fin 120])]\<rparr>"

definition one_row_table :: table where
  "one_row_table = \<lparr>index = [0], columns = [(''GDP'', NumCol [Fin 100])]\<rparr>"

definition many_rows_table :: table where
  "many_rows_table = \<lparr>index = replicate 2908 0, columns = []\<rparr>"


definition fiscal_table :: table where
  "fiscal_table =
     \<lparr>index = [0, 1, 2],
      columns = [(''Fiscal_Deficit'', NumCol [Fin 10, Fin 50, NaN]),
                 (''Government_Revenue'', NumCol [Fin 90, Fin 80, Fin 70]),
                 (''Expenditure'', NumCol [Fin 100, Fin 100, Fin (- 1)])]\<rparr>"

definition negatives_table :: table where
  "negatives_table =
     \<lparr>index = [0, 1, 2, 3],
      columns = [(''GDP'', NumCol [Fin (- 5), NaN, Fin 3, NInf]),
                 (''Consumption'', NumCol [NaN, NaN, NaN, NaN])]\<rparr>"


definition example_number :: "string \<Rightarrow> fval" where
  "example_number s = (if s = ''5'' then Fin 5 else NaN)"

definition gaps_table :: table where
  "gaps_table =
     \<lparr>index = [0, 1, 2, 3, 4],
      columns = [(''Date'', DateCol (map (\<lambda>k. Some (month_end k)) [0..<5])),
                 (''GDP'', NumCol [NaN, Fin 1, NaN, Fin 3, NaN])]\<rparr>"




section \<open>Properties\<close>

subsection \<open>Tables\<close>

lemma get_col_set_col:
  "get_col (set_col c v df) c' = (if c' = c then Some v else get_col df c')"
  by (simp add: get_col_def set_col_def update_conv')

lemma get_col_take_rows:
  "get_col (take_rows ps df) c = map_option (take_col ps) (get_col df c)"
  by (simp add: get_col_def take_rows_def map_of_map)

lemma get_col_index_update: "get_col (df\<lparr>index := ix\<rparr>) c = get_col df c"
  by (simp add: get_col_def)

lemma index_take_rows: "index (take_rows ps df) = map ((!) (index df)) ps"
  by (simp add: take_rows_def)

lemma index_set_col: "index (set_col c v df) = index df"
  by (simp add: set_col_def)

lemma len_set_col: "len (set_col c v df) = len df"
  by (simp add: len_def index_set_col)

lemma take_col_id: "col_length v = n \<Longrightarrow> take_col [0..<n] v = v"
  by (cases v) (auto simp: map_nth)

lemma take_rows_id:
  assumes "wf_table df"
  shows "take_rows [0..<len df] df = df"
proof -
  have "map (\<lambda>(c, v). (c, take_col [0..<len df] v)) (columns df) = columns df"
    using assms unfolding wf_table_def list_all_iff
    by (intro map_idI) (auto simp: take_col_id)
  then show ?thesis by (simp add: take_rows_def len_def map_nth)
qed

lemma list_all_update:
  "list_all P al \<Longrightarrow> P (k, v) \<Longrightarrow> list_all P (AList.update k v al)"
  by (induction al) auto

lemma wf_set_col: "wf_table df \<Longrightarrow> col_length v = len df \<Longrightarrow> wf_table (set_col c v df)"
  by (simp add: wf_table_def set_col_def len_def list_all_update)

subsection \<open>Date Normalizer\<close>

lemma na_last_Some_le: "na_last (Some a) \<le> na_last (Some b) \<longleftrightarrow> a \<le> b"
  by (simp add: na_last_def less_eq_prod_def)

lemma list_all_map_Some: "list_all (\<lambda>d. d \<noteq> None) (map Some ts)"
  by (induction ts) simp_all

text \<open>A column without \<^verbatim>\<open>NaT\<close> whose sort keys ascend is a list of ascending timestamps.\<close>

lemma sorted_keys_timestamps:
  "sorted (map na_last ds) \<Longrightarrow> list_all (\<lambda>d. d \<noteq> None) ds \<Longrightarrow>
     \<exists>ts. ds = map Some ts \<and> sorted ts"
proof (induction ds)
  case Nil
  then show ?case by simp
next
  case (Cons d ds)
  then obtain ts where ts: "ds = map Some ts" "sorted ts" by auto
  from Cons.prems obtain t where t: "d = Some t" by auto
  have "\<forall>x\<in>set ts. t \<le> x"
    using Cons.prems(1) ts(1) t by (auto simp: na_last_Some_le)
  then have "d # ds = map Some (t # ts) \<and> sorted (t # ts)"
    using ts t by simp
  then show ?case by (rule exI[of _ "t # ts"])
qed

lemma argsort_props:
  "set (argsort ds) = {0..<length ds}"
  "length (argsort ds) = length ds"
  "sorted (map na_last (map ((!) ds) (argsort ds)))"
  using sorted_sort_key[of "\<lambda>i. na_last (ds ! i)" "[0..<length ds]"]
  by (simp_all add: argsort_def comp_def)

lemma sorted_take_argsort:
  assumes "list_all (\<lambda>d. d \<noteq> None) ds"
  shows "\<exists>ts. map ((!) ds) (argsort ds) = map Some ts \<and> sorted ts"
proof -
  have "list_all (\<lambda>d. d \<noteq> None) (map ((!) ds) (argsort ds))"
    using assms argsort_props(1)[of ds] by (auto simp: list_all_iff)
  then show ?thesis using sorted_keys_timestamps[OF argsort_props(3)] by blast
qed

text \<open>The last two steps of the method, on a table whose date column has no \<^verbatim>\<open>NaT\<close>.\<close>

lemma sort_reset_props:
  assumes "get_col df ''Date'' = Some (DateCol ds)" "list_all (\<lambda>d. d \<noteq> None) ds"
  shows "\<exists>ts. get_col (reset_index (sort_values_Date df)) ''Date'' = Some (DateCol (map Some ts))
     \<and> sorted ts \<and> index (reset_index (sort_values_Date df)) = [0..<length ts]"
proof -
  obtain ts where ts: "map ((!) ds) (argsort ds) = map Some ts" "sorted ts"
    using sorted_take_argsort[OF assms(2)] by blast
  have l: "length ts = length ds"
    using ts(1) argsort_props(2)[of ds] by (metis length_map)
  have "get_col (reset_index (sort_values_Date df)) ''Date'' = Some (DateCol (map Some ts))"
    using assms(1) ts(1)
    by (simp add: reset_index_def sort_values_Date_def get_col_take_rows get_col_index_update)
  moreover have "index (reset_index (sort_values_Date df)) = [0..<length ts]"
    using assms(1) l
    by (simp add: reset_index_def sort_values_Date_def len_def index_take_rows argsort_props)
  ultimately show ?thesis using ts(2) by blast
qed

lemma month_end_mono: "j \<le> k \<Longrightarrow> month_end j \<le> month_end k"
proof -
  assume "j \<le> k"
  then have "j div 12 < k div 12 \<or> (j div 12 = k div 12 \<and> j mod 12 \<le> k mod 12)"
    by (metis div_le_mono le_neq_implies_less mod_div_decomp nat_add_left_cancel_le)
  moreover have "j div 12 = k div 12 \<Longrightarrow> j mod 12 = k mod 12 \<Longrightarrow> j = k"
    by (metis mod_div_decomp)
  ultimately show ?thesis
    using \<open>j \<le> k\<close> by (auto simp: month_end_def Let_def less_eq_prod_def)
qed

lemma date_range_ok: "n \<le> 2907 \<Longrightarrow> date_range n = Inr (map month_end [0..<n])"
proof -
  assume n: "n \<le> 2907"
  have "month_end 2906 = (2262, 3, 31, 0)"
    by (simp add: month_end_def days_in_month_def)
  then have "month_end 2906 \<le> timestamp_max"
    by (simp add: timestamp_max_def less_eq_prod_def)
  moreover have "month_end (n - 1) \<le> month_end 2906"
    using n by (intro month_end_mono) simp
  ultimately have "\<not> timestamp_max < month_end (n - 1)" by simp
  then show ?thesis by (simp add: date_range_def)
qed

lemma date_range_overflow: "2907 < n \<Longrightarrow> date_range n = Inl OutOfBoundsDatetime"
proof -
  assume n: "2907 < n"
  have "timestamp_max < month_end 2907"
    by (simp add: month_end_def days_in_month_def timestamp_max_def less_prod_def Let_def)
  moreover have "month_end 2907 \<le> month_end (n - 1)"
    using n by (intro month_end_mono) simp
  ultimately have "timestamp_max < month_end (n - 1)" by simp
  then show ?thesis using n by (simp add: date_range_def)
qed

lemma argsort_month_end: "argsort (map (\<lambda>k. Some (month_end k)) [0..<n]) = [0..<n]"
proof -
  have "sorted (map (\<lambda>i. na_last (map (\<lambda>k. Some (month_end k)) [0..<n] ! i)) [0..<n])"
    by (auto simp: sorted_map sorted_wrt_iff_nth_less na_last_Some_le intro!: month_end_mono)
  then show ?thesis by (simp add: argsort_def sort_key_id_if_sorted)
qed

text \<open>
  The method returns a table on every input that has a \<^verbatim>\<open>Date\<close> column, and on every
  input of at most 2907 rows.
\<close>

lemma clean_date_column_returns:
  assumes "get_col df ''Date'' \<noteq> None \<or> len df \<le> 2907"
  shows "\<exists>out. clean_date_column pstr pnum df = Inr out"
proof (cases "get_col df ''Date''")
  case None
  then have "len df \<le> 2907" using assms by simp
  then show ?thesis using None by (simp add: clean_date_column_def date_range_ok)
next
  case (Some c)
  then show ?thesis by (simp add: clean_date_column_def Let_def)
qed

text \<open>
  Claim C1. Whatever the input table and the parsers, the table that
  \<^verbatim>\<open>clean_date_column\<close> returns has a date column without missing entries, its dates
  are in non-decreasing order, and its row index is \<open>0, 1, ..., n - 1\<close>.
\<close>

theorem clean_date_column_sorted:
  assumes "clean_date_column pstr pnum df = Inr out"
  shows "\<exists>ts. get_col out ''Date'' = Some (DateCol (map Some ts)) \<and> sorted ts \<and>
              index out = [0..<length ts]"
proof (cases "get_col df ''Date''")
  case None
  then obtain ds where out:
    "out = reset_index (sort_values_Date (set_col ''Date'' (DateCol (map Some ds)) df))"
    using assms by (auto simp: clean_date_column_def split: sum.splits)
  show ?thesis unfolding out
  proof (rule sort_reset_props[where ds = "map Some ds"])
    show "get_col (set_col ''Date'' (DateCol (map Some ds)) df) ''Date'' =
          Some (DateCol (map Some ds))"
      by (simp add: get_col_set_col)
    show "list_all (\<lambda>d. d \<noteq> None) (map Some ds)"
      by (rule list_all_map_Some)
  qed
next
  case (Some c)
  define ds where "ds = to_datetime pstr pnum c"
  define df1 where "df1 = set_col ''Date'' (DateCol ds) df"
  show ?thesis
  proof (cases "0 < length (filter (\<lambda>d. d = None) ds)")
    case True
    then have out: "out = reset_index (sort_values_Date (dropna_date ds df1))"
      using assms Some by (simp add: clean_date_column_def Let_def ds_def df1_def)
    show ?thesis unfolding out
    proof (rule sort_reset_props[where
          ds = "map ((!) ds) (filter (\<lambda>i. ds ! i \<noteq> None) [0..<length ds])"])
      show "get_col (dropna_date ds df1) ''Date'' =
            Some (DateCol (map ((!) ds) (filter (\<lambda>i. ds ! i \<noteq> None) [0..<length ds])))"
        by (simp add: dropna_date_def get_col_take_rows df1_def get_col_set_col)
      show "list_all (\<lambda>d. d \<noteq> None)
              (map ((!) ds) (filter (\<lambda>i. ds ! i \<noteq> None) [0..<length ds]))"
        unfolding list_all_iff by auto
    qed
  next
    case False
    then have out: "out = reset_index (sort_values_Date df1)"
      using assms Some by (simp add: clean_date_column_def Let_def ds_def df1_def)
    from False have "list_all (\<lambda>d. d \<noteq> None) ds"
      unfolding list_all_iff by (auto simp: filter_empty_conv)
    moreover have "get_col df1 ''Date'' = Some (DateCol ds)"
      by (simp add: df1_def get_col_set_col)
    ultimately show ?thesis unfolding out
      using sort_reset_props[where ds = ds] by blast
  qed
qed

theorem clean_date_column_sorted_witness:
  "clean_date_column example_parse (\<lambda>x. None) dated_table = Inr dated_table_cleaned \<and>
   (\<exists>ts. get_col dated_table_cleaned ''Date'' = Some (DateCol (map Some ts)) \<and> sorted ts \<and>
      index dated_table_cleaned = [0..<length ts])"
proof -
  have h: "clean_date_column example_parse (\<lambda>x. None) dated_table = Inr dated_table_cleaned"
    by code_simp
  show ?thesis using h clean_date_column_sorted[OF h] by simp
qed

text \<open>
  Claim C2, as amended. For a well-formed table without a \<^verbatim>\<open>Date\<close> column and with at
  most 2907 rows, \<^verbatim>\<open>clean_date_column\<close> returns the table with a new \<^verbatim>\<open>Date\<close> column of
  exactly \<open>len df\<close> dates, one per row in row order, where the date of row \<open>k\<close> is the last
  day of the \<open>k\<close>-th month after January 2020 (the first is 2020-01-31), and with the index
  \<open>0, ..., len df - 1\<close>. With more than 2907 rows the date range leaves the range of
  nanosecond timestamps and the method raises.
\<close>

theorem clean_date_column_no_date:
  assumes "get_col df ''Date'' = None" and "wf_table df"
  shows "clean_date_column pstr pnum df =
     (if len df \<le> 2907
      then Inr (set_col ''Date'' (DateCol (map (\<lambda>k. Some (month_end k)) [0..<len df])) df
                  \<lparr>index := [0..<len df]\<rparr>)
      else Inl OutOfBoundsDatetime)"
proof (cases "len df \<le> 2907")
  case True
  define ds where "ds = map (\<lambda>k. Some (month_end k)) [0..<len df]"
  define df1 where "df1 = set_col ''Date'' (DateCol ds) df"
  have l: "len df1 = len df" by (simp add: df1_def len_set_col)
  have wf: "wf_table df1"
    unfolding df1_def by (rule wf_set_col[OF assms(2)]) (simp add: ds_def)
  have "sort_values_Date df1 = take_rows (argsort ds) df1"
    by (simp add: sort_values_Date_def df1_def get_col_set_col)
  also have "argsort ds = [0..<len df1]"
    unfolding ds_def l by (rule argsort_month_end)
  finally have "sort_values_Date df1 = df1"
    using take_rows_id[OF wf] by simp
  then have "reset_index (sort_values_Date df1) = df1\<lparr>index := [0..<len df]\<rparr>"
    by (simp add: reset_index_def l)
  then show ?thesis
    using True assms(1)
    by (simp add: clean_date_column_def date_range_ok df1_def ds_def comp_def)
next
  case False
  then show ?thesis using assms(1)
    by (simp add: clean_date_column_def date_range_overflow)
qed

theorem clean_date_column_no_date_witness:
  "get_col no_date_table ''Date'' = None \<and> wf_table no_date_table \<and>
   clean_date_column (\<lambda>s. None) (\<lambda>x. None) no_date_table =
     Inr \<lparr>index = [0, 1, 2],
          columns = [(''GDP'', NumCol [Fin 100, NaN, Fin 120]),
                     (''Date'', DateCol [Some (2020, 1, 31, 0), Some (2020, 2, 29, 0),
                                         Some (2020, 3, 31, 0)])]\<rparr>"
proof -
  have h1: "get_col no_date_table ''Date'' = None"
    by (simp add: get_col_def no_date_table_def)
  have h2: "wf_table no_date_table"
    by (simp add: wf_table_def no_date_table_def len_def)
  have l: "len no_date_table = 3" by (simp add: len_def no_date_table_def)
  have u: "[0..<3] = [0, 1, 2]" by (simp add: upt_rec)
  have r: "clean_date_column (\<lambda>s. None) (\<lambda>x. None) no_date_table =
      Inr (set_col ''Date'' (DateCol (map (\<lambda>k. Some (month_end k)) [0..<3])) no_date_table
             \<lparr>index := [0..<3]\<rparr>)"
    using clean_date_column_no_date[OF h1 h2, of "\<lambda>s. None" "\<lambda>x. None"] by (simp add: l)
  have v: "set_col ''Date'' (DateCol (map (\<lambda>k. Some (month_end k)) [0..<3])) no_date_table
             \<lparr>index := [0..<3]\<rparr> =
           \<lparr>index = [0, 1, 2],
            columns = [(''GDP'', NumCol [Fin 100, NaN, Fin 120]),
                       (''Date'', DateCol [Some (2020, 1, 31, 0), Some (2020, 2, 29, 0),
                                           Some (2020, 3, 31, 0)])]\<rparr>"
    by (simp add: u month_end_def days_in_month_def is_leap_def set_col_def no_date_table_def)
  show ?thesis using h1 h2 r v by simp
qed

text \<open>
  Claim C2 as stated fails: on a one-row table without a \<^verbatim>\<open>Date\<close> column the only date
  produced is 2020-01-31, not 2020-01-01; and on a table of 2908 rows without a
  \<^verbatim>\<open>Date\<close> column no dates are produced, the method raises.
\<close>

theorem clean_date_column_first_date_counterexample:
  "get_col one_row_table ''Date'' = None \<and>
   clean_date_column (\<lambda>s. None) (\<lambda>x. None) one_row_table =
     Inr \<lparr>index = [0],
          columns = [(''GDP'', NumCol [Fin 100]),
                     (''Date'', DateCol [Some (2020, 1, 31, 0)])]\<rparr> \<and>
   (2020, 1, 31, 0) \<noteq> ((2020, 1, 1, 0) :: timestamp) \<and>
   get_col many_rows_table ''Date'' = None \<and>
   clean_date_column (\<lambda>s. None) (\<lambda>x. None) many_rows_table = Inl OutOfBoundsDatetime"
  by (simp add: get_col_def one_row_table_def many_rows_table_def clean_date_column_def
      date_range_def len_def month_end_def days_in_month_def is_leap_def timestamp_max_def
      less_prod_def sort_values_Date_def set_col_def argsort_def take_rows_def reset_index_def
      na_last_def)

subsection \<open>Consistency Validator\<close>

lemma bnd_Inr: "bnd m f = Inr y \<longleftrightarrow> (\<exists>x. m = Inr x \<and> f x = Inr y)"
  by (cases m) (simp_all add: bnd_def)

lemma count_true_map: "count_true (map P xs) = length (filter P xs)"
  by (induction xs) (simp_all add: count_true_def)






text \<open>On finite values the row condition is the inequality between real numbers.\<close>

lemma gdp_identity_violated_finite:
  "gdp_identity_violated (Fin g) (Fin c) (Fin i) (Fin gs) (Fin nx) \<longleftrightarrow>
     \<bar>g - (c + i + gs + nx)\<bar> > 0.05 * \<bar>g\<bar>"
proof -
  have e: "g + (- c - i - gs - nx) = g - (c + i + gs + nx)" by simp
  show ?thesis
    by (simp add: gdp_identity_violated_def fgt_def fsub_def) (simp only: e)
qed

lemma fadd_NaN_right: "fadd x NaN = NaN"
  by (cases x) simp_all

lemma fmul_NaN_right: "fmul x NaN = NaN"
  by (cases x) simp_all

lemma flt_NaN_right: "flt x NaN = False"
  by (cases x) simp_all

text \<open>A row with a missing value in any of the five columns is not flagged.\<close>

lemma gdp_identity_violated_missing:
  "\<not> gdp_identity_violated NaN c i gs nx" "\<not> gdp_identity_violated g NaN i gs nx"
  "\<not> gdp_identity_violated g c NaN gs nx" "\<not> gdp_identity_violated g c i NaN nx"
  "\<not> gdp_identity_violated g c i gs NaN"
  by (simp_all add: gdp_identity_violated_def fgt_def fsub_def fadd_NaN_right fmul_NaN_right
      flt_NaN_right)

lemma gdp_check_no_neg: "gdp_check df = Inr is \<Longrightarrow> filter (is_negative_issue c) is = []"
  by (auto simp: gdp_check_def bnd_Inr Let_def split: if_splits)

lemma deficit_check_no_neg:
  "deficit_check df = Inr is \<Longrightarrow> filter (is_negative_issue c) is = []"
  by (auto simp: deficit_check_def bnd_Inr Let_def split: if_splits)

lemma flt_zero: "flt x (Fin 0) = strictly_negative x"
  by (cases x) simp_all

lemma sign_check_result:
  assumes "sign_check df cols = Inr is" "distinct cols" "num_col df c = Inr xs"
  shows "filter (is_negative_issue c) is =
     (if c \<in> set cols
      then (let k = length (filter strictly_negative xs)
            in if 0 < k then [NegativeValues c k] else [])
      else [])"
  using assms
proof (induction cols arbitrary: "is")
  case Nil
  then show ?case by simp
next
  case (Cons a cols)
  show ?case
  proof (cases "get_col df a \<noteq> None")
    case True
    then obtain ys rest where r: "num_col df a = Inr ys" "sign_check df cols = Inr rest"
      "is = (if 0 < count_true (map (\<lambda>x. flt x (Fin 0)) ys)
             then [NegativeValues a (count_true (map (\<lambda>x. flt x (Fin 0)) ys))] else []) @ rest"
      using Cons.prems(1) by (auto simp: bnd_Inr Let_def)
    have ih: "filter (is_negative_issue c) rest =
        (if c \<in> set cols
         then (let k = length (filter strictly_negative xs)
               in if 0 < k then [NegativeValues c k] else [])
         else [])"
      using Cons.IH[OF r(2)] Cons.prems by simp
    show ?thesis
    proof (cases "a = c")
      case True
      then have "ys = xs" "c \<notin> set cols" using r(1) Cons.prems by auto
      then show ?thesis using ih r(3) True
        by (simp add: count_true_map flt_zero Let_def)
    next
      case False
      then show ?thesis using ih r(3) by simp
    qed
  next
    case False
    then have "a \<noteq> c" using Cons.prems(3) by (auto simp: num_col_def)
    moreover have "sign_check df cols = Inr is" using False Cons.prems(1) by simp
    ultimately show ?thesis using Cons.IH Cons.prems by simp
  qed
qed


text \<open>On a table whose registered columns are numeric the validator returns.\<close>

lemma numeric_or_absent_num_col:
  "numeric_or_absent df c \<Longrightarrow> get_col df c \<noteq> None \<Longrightarrow> \<exists>xs. num_col df c = Inr xs"
  by (auto simp: numeric_or_absent_def num_col_def split: option.splits column.splits)

lemma coerced_numeric: "coerced df \<Longrightarrow> c \<in> set numeric_columns \<Longrightarrow> numeric_or_absent df c"
  by (simp add: coerced_def list_all_iff)

lemma gdp_check_total:
  assumes "coerced df"
  shows "\<exists>is. gdp_check df = Inr is"
proof (cases "has_cols df [''GDP'', ''Consumption'', ''Investment'', ''Government_Spending'',
                           ''Net_Exports'']")
  case True
  have n: "numeric_or_absent df ''GDP''" "numeric_or_absent df ''Consumption''"
    "numeric_or_absent df ''Investment''" "numeric_or_absent df ''Government_Spending''"
    "numeric_or_absent df ''Net_Exports''"
    using assms by (auto intro!: coerced_numeric simp: numeric_columns_def)
  from True obtain gdp cons invest gov nx where
    "num_col df ''GDP'' = Inr gdp" "num_col df ''Consumption'' = Inr cons"
    "num_col df ''Investment'' = Inr invest" "num_col df ''Government_Spending'' = Inr gov"
    "num_col df ''Net_Exports'' = Inr nx"
    using numeric_or_absent_num_col[OF n(1)] numeric_or_absent_num_col[OF n(2)]
      numeric_or_absent_num_col[OF n(3)] numeric_or_absent_num_col[OF n(4)]
      numeric_or_absent_num_col[OF n(5)]
    by (auto simp: has_cols_def)
  then show ?thesis using True by (simp add: gdp_check_def bnd_def Let_def)
next
  case False
  then show ?thesis by (simp add: gdp_check_def)
qed

lemma deficit_check_total:
  assumes "coerced df"
  shows "\<exists>is. deficit_check df = Inr is"
proof (cases "has_cols df [''Fiscal_Deficit'', ''Government_Revenue'', ''Expenditure'']")
  case True
  have n: "numeric_or_absent df ''Fiscal_Deficit''" "numeric_or_absent df ''Government_Revenue''"
    "numeric_or_absent df ''Expenditure''"
    using assms by (auto intro!: coerced_numeric simp: numeric_columns_def)
  from True obtain fd rev expd where
    "num_col df ''Fiscal_Deficit'' = Inr fd" "num_col df ''Government_Revenue'' = Inr rev"
    "num_col df ''Expenditure'' = Inr expd"
    using numeric_or_absent_num_col[OF n(1)] numeric_or_absent_num_col[OF n(2)]
      numeric_or_absent_num_col[OF n(3)]
    by (auto simp: has_cols_def)
  then show ?thesis using True by (simp add: deficit_check_def bnd_def Let_def)
next
  case False
  then show ?thesis by (simp add: deficit_check_def)
qed

lemma sign_check_total:
  "list_all (numeric_or_absent df) cols \<Longrightarrow> \<exists>is. sign_check df cols = Inr is"
proof (induction cols)
  case Nil
  then show ?case by simp
next
  case (Cons a cols)
  then obtain rest where r: "sign_check df cols = Inr rest" by auto
  show ?case
  proof (cases "get_col df a \<noteq> None")
    case True
    then obtain xs where "num_col df a = Inr xs"
      using numeric_or_absent_num_col[of df a] Cons.prems by auto
    then show ?thesis using True r by (simp add: bnd_def Let_def)
  next
    case False
    then show ?thesis using r by simp
  qed
qed

lemma validate_total:
  assumes "coerced df"
  shows "\<exists>issues. validate_economic_relationships df = Inr (df, issues)"
proof -
  obtain i1 i2 where 1: "gdp_check df = Inr i1" "deficit_check df = Inr i2"
    using gdp_check_total[OF assms] deficit_check_total[OF assms] by blast
  have "list_all (numeric_or_absent df) positive_columns"
    using assms by (auto simp: list_all_iff positive_columns_def numeric_columns_def
        intro!: coerced_numeric)
  then obtain i3 where 3: "sign_check df positive_columns = Inr i3"
    using sign_check_total by blast
  show ?thesis using 1 3 by (simp add: validate_economic_relationships_def bnd_def)
qed



text \<open>
  Claim C4. The table that \<^verbatim>\<open>validate_economic_relationships\<close> returns is its input
  table: no cell, row or column differs.
\<close>

theorem validate_returns_input:
  "validate_economic_relationships df = Inr (out, issues) \<Longrightarrow> out = df"
  by (auto simp: validate_economic_relationships_def bnd_Inr)

theorem validate_returns_input_witness:
  "validate_economic_relationships fiscal_table =
     Inr (fiscal_table, [DeficitMismatch 1, NegativeValues ''Expenditure'' 1])"
proof -
  have v: "validate_economic_relationships fiscal_table =
      Inr (fiscal_table, [DeficitMismatch 1, NegativeValues ''Expenditure'' 1])"
    by code_simp
  show ?thesis using v validate_returns_input[OF v] by simp
qed

lemma validate_negative_issue_list:
  assumes "validate_economic_relationships df = Inr (out, issues)"
    and "c \<in> set positive_columns" and "num_col df c = Inr xs"
  shows "filter (is_negative_issue c) issues =
     (let k = length (filter strictly_negative xs)
      in if 0 < k then [NegativeValues c k] else [])"
proof -
  obtain i1 i2 i3 where i: "gdp_check df = Inr i1" "deficit_check df = Inr i2"
      "sign_check df positive_columns = Inr i3" "issues = i1 @ i2 @ i3"
    using assms(1) by (auto simp: validate_economic_relationships_def bnd_Inr)
  have d: "distinct positive_columns" by (simp add: positive_columns_def)
  show ?thesis
    using sign_check_result[OF i(3) d assms(3)] assms(2) i gdp_check_no_neg
      deficit_check_no_neg
    by simp
qed

text \<open>
  Claim C10. On a table whose registered columns are numeric the validator returns, and for
  each of the six sign-constrained columns that is present its issue list holds an issue for
  the column exactly when the column has an entry that is not missing and is strictly
  negative, and the issue reports the number of such entries: a missing value is never
  counted, and a column whose entries are all missing or all non-negative produces no issue.
\<close>

theorem validate_negative_count:
  assumes "coerced df" and "c \<in> set positive_columns" and "num_col df c = Inr xs"
  shows "\<exists>issues. validate_economic_relationships df = Inr (df, issues) \<and>
     filter (is_negative_issue c) issues =
       (let k = length (filter strictly_negative xs)
        in if 0 < k then [NegativeValues c k] else [])"
proof -
  obtain issues where v: "validate_economic_relationships df = Inr (df, issues)"
    using validate_total[OF assms(1)] by blast
  show ?thesis
    using v validate_negative_issue_list[OF v assms(2,3)] by blast
qed

theorem validate_negative_count_witness:
  "coerced negatives_table \<and> ''GDP'' \<in> set positive_columns \<and>
   ''Consumption'' \<in> set positive_columns \<and>
   num_col negatives_table ''GDP'' = Inr [Fin (- 5), NaN, Fin 3, NInf] \<and>
   num_col negatives_table ''Consumption'' = Inr [NaN, NaN, NaN, NaN] \<and>
   validate_economic_relationships negatives_table =
     Inr (negatives_table, [NegativeValues ''GDP'' 2]) \<and>
   length (filter strictly_negative [Fin (- 5), NaN, Fin 3, NInf]) = 2 \<and>
   filter (is_negative_issue ''Consumption'') [NegativeValues ''GDP'' 2] = []"
proof -
  have h: "coerced negatives_table"
    by (simp add: coerced_def numeric_or_absent_def numeric_columns_def get_col_def
        negatives_table_def)
  have v: "validate_economic_relationships negatives_table =
      Inr (negatives_table, [NegativeValues ''GDP'' 2])"
    by code_simp
  have p: "''GDP'' \<in> set positive_columns" "''Consumption'' \<in> set positive_columns"
    by (simp_all add: positive_columns_def)
  have c: "num_col negatives_table ''GDP'' = Inr [Fin (- 5), NaN, Fin 3, NInf]"
    "num_col negatives_table ''Consumption'' = Inr [NaN, NaN, NaN, NaN]"
    by (simp_all add: num_col_def get_col_def negatives_table_def)
  show ?thesis
    using h v p c validate_negative_count[OF h p(1) c(1)]
      validate_negative_count[OF h p(2) c(2)]
    by (simp add: Let_def)
qed

subsection \<open>Numeric Sanitizer\<close>













lemma update_same: "map_of al k = Some v \<Longrightarrow> AList.update k v al = al"
  by (induction al) (auto split: if_splits)

lemma set_col_same: "get_col df c = Some v \<Longrightarrow> set_col c v df = df"
  by (simp add: get_col_def set_col_def update_same)

lemma clean_numeric_column_coerced:
  assumes "numeric_or_absent (fst s) col"
  shows "fst (clean_numeric_column nstr ndate col s) = fst s"
  using assms
  by (auto simp: clean_numeric_column_def numeric_or_absent_def Let_def set_col_same
      split: option.splits column.splits)

lemma clean_fold_coerced:
  assumes "list_all (numeric_or_absent (fst s)) cols"
  shows "fst (foldl (\<lambda>s col. clean_numeric_column nstr ndate col s) s cols) = fst s"
  using assms
proof (induction cols arbitrary: s)
  case Nil
  then show ?case by simp
next
  case (Cons a cols)
  have 1: "fst (clean_numeric_column nstr ndate a s) = fst s"
    using Cons.prems by (intro clean_numeric_column_coerced) simp
  show ?case using Cons.IH[of "clean_numeric_column nstr ndate a s"] Cons.prems 1 by simp
qed



text \<open>
  Claim C9. On a table whose registered numeric columns are already coerced, the sanitizer
  returns the table as it is, so a second application yields what the first did, table and
  log.
\<close>

theorem sanitizer_idempotent:
  assumes "coerced df"
  shows "fst (clean_numeric_columns nstr ndate df) = df \<and>
         clean_numeric_columns nstr ndate (fst (clean_numeric_columns nstr ndate df)) =
           clean_numeric_columns nstr ndate df"
proof -
  have "fst (clean_numeric_columns nstr ndate df) = df"
    using assms clean_fold_coerced[of "(df, [])" numeric_columns nstr ndate]
    by (simp add: clean_numeric_columns_def coerced_def)
  then show ?thesis by simp
qed

theorem sanitizer_idempotent_witness:
  "coerced negatives_table \<and>
   fst (clean_numeric_columns example_number (\<lambda>d. NaN) negatives_table) = negatives_table \<and>
   clean_numeric_columns example_number (\<lambda>d. NaN)
       (fst (clean_numeric_columns example_number (\<lambda>d. NaN) negatives_table)) =
     clean_numeric_columns example_number (\<lambda>d. NaN) negatives_table"
proof -
  have h: "coerced negatives_table"
    by (simp add: coerced_def numeric_or_absent_def numeric_columns_def get_col_def
        negatives_table_def)
  show ?thesis using h sanitizer_idempotent[OF h] by simp
qed

subsection \<open>Missing-Value Imputer\<close>

text \<open>
  Claim C8. For a strategy name outside the five known names, \<^verbatim>\<open>handle_missing_values\<close>
  returns exactly the table it returns for \<^verbatim>\<open>'interpolate'\<close> on the same input; the
  method is a total function, no branch of it raises.
\<close>

theorem handle_missing_values_unknown_method:
  assumes "method \<notin> {''interpolate'', ''forward_fill'', ''backward_fill'', ''mean'', ''median''}"
  shows "handle_missing_values interp df method =
         handle_missing_values interp df ''interpolate''"
  using assms by (simp add: handle_missing_values_def)

theorem handle_missing_values_unknown_method_witness:
  "''bogus_method'' \<notin> {''interpolate'', ''forward_fill'', ''backward_fill'', ''mean'', ''median''} \<and>
   handle_missing_values linear_interpolate gaps_table ''bogus_method'' =
     handle_missing_values linear_interpolate gaps_table ''interpolate'' \<and>
   get_col (handle_missing_values linear_interpolate gaps_table ''bogus_method'') ''GDP'' =
     Some (NumCol [NaN, Fin 1, Fin 2, Fin 3, Fin 3])"
proof -
  have h: "''bogus_method'' \<notin>
      {''interpolate'', ''forward_fill'', ''backward_fill'', ''mean'', ''median''}"
    by simp
  have "linear_interpolate [NaN, Fin 1, NaN, Fin 3, NaN] = [NaN, Fin 1, Fin 2, Fin 3, Fin 3]"
    by (simp add: linear_interpolate_def isna_def fsub_def)
  then have g: "get_col (handle_missing_values linear_interpolate gaps_table ''interpolate'')
      ''GDP'' = Some (NumCol [NaN, Fin 1, Fin 2, Fin 3, Fin 3])"
    by (simp add: handle_missing_values_def on_numeric_def get_col_def gaps_table_def)
  show ?thesis
    using h g handle_missing_values_unknown_method[OF h, of linear_interpolate gaps_table]
    by simp
qed

subsection \<open>Derived-Indicator Calculator\<close>










lemma ge1_notna: "ge1 a \<Longrightarrow> fmul (Fin 100) a \<noteq> NaN"
  by (cases a) (simp_all add: signed_inf_def)








lemma price_index_product_finite:
  "price_index_product (map Fin as) i = Fin (100 * prod_list (map (\<lambda>a. 1 + a / 100) (take (Suc i) as)))"
proof -
  have "foldl fmul (Fin s) (map growth_factor (map Fin bs)) = Fin (s * prod_list (map (\<lambda>a. 1 + a / 100) bs))" for s bs
    by (induction bs arbitrary: s) (simp_all add: growth_factor_def algebra_simps)
  from this[of 1 "take (Suc i) as"] show ?thesis
    by (simp add: price_index_product_def take_map)
qed



















end
